theory Spec2Isabelle
  imports Main "HOL-Library.Word" "HOL-Library.Sublist"
begin

section \<open>The palette extractor of \<^verbatim>\<open>extract_colors.py\<close>\<close>

text \<open>
  The script opens an image with the imaging library, converts it to RGB, asks the
  library for the histogram of its colours, sorts the histogram by count, descending,
  and prints and returns the hex strings of the colours that occur more than 100 times.
  Everything is inside one \<^verbatim>\<open>try\<close> whose handler prints the exception and
  returns nothing.
\<close>

subsection \<open>Data\<close>

text \<open>
  After \<^verbatim>\<open>img.convert("RGB")\<close> a pixel is a tuple of three 8-bit bands, which
  Python reads as integers; \<^verbatim>\<open>getcolors\<close> returns a list of
  \<^verbatim>\<open>(count, pixel)\<close> tuples, the count a Python integer.
\<close>

type_synonym color = "8 word \<times> 8 word \<times> 8 word"

type_synonym histogram = "(int \<times> color) list"

text \<open>
  The imaging library is not part of the script: its three calls are parameters.
  Each may raise, which is \<open>Inl\<close> of the exception's text; \<^verbatim>\<open>getcolors\<close>
  returns \<^verbatim>\<open>None\<close> when the image has more colours than \<^verbatim>\<open>maxcolors\<close>.
\<close>

record 'img pil =
  Image_open :: "string \<Rightarrow> string + 'img"
  convert :: "'img \<Rightarrow> string \<Rightarrow> string + 'img"
  getcolors :: "'img \<Rightarrow> nat \<Rightarrow> string + histogram option"

subsection \<open>Formatting\<close>

text \<open>
  \<^verbatim>\<open>{:02x}\<close> on a Python integer: lowercase hexadecimal digits, a minus sign for a
  negative number, zeros between the sign and the digits up to a total width of 2.
\<close>

definition hex_digit :: "nat \<Rightarrow> char" where
  "hex_digit d = ''0123456789abcdef'' ! d"

fun hex_digits :: "nat \<Rightarrow> string" where
  "hex_digits n =
     (if n < 16 then [hex_digit n] else hex_digits (n div 16) @ [hex_digit (n mod 16)])"

declare hex_digits.simps [simp del]

definition zero_pad :: "nat \<Rightarrow> string \<Rightarrow> string" where
  "zero_pad w s = replicate (w - length s) (CHR ''0'') @ s"

definition format_02x :: "int \<Rightarrow> string" where
  "format_02x n =
     (if n < 0 then CHR ''-'' # zero_pad 1 (hex_digits (nat (- n)))
      else zero_pad 2 (hex_digits (nat n)))"

text \<open>\<^verbatim>\<open>"#{:02x}{:02x}{:02x}".format(r, g, b)\<close> on three Python integers.\<close>

definition format_hex :: "int \<Rightarrow> int \<Rightarrow> int \<Rightarrow> string" where
  "format_hex r g b = ''#'' @ format_02x r @ format_02x g @ format_02x b"

text \<open>The same on a pixel: \<^verbatim>\<open>color[0]\<close>, \<^verbatim>\<open>color[1]\<close>, \<^verbatim>\<open>color[2]\<close>.\<close>

definition color_hex :: "color \<Rightarrow> string" where
  "color_hex color =
     (case color of (c0, c1, c2) \<Rightarrow> format_hex (uint c0) (uint c1) (uint c2))"

text \<open>\<^verbatim>\<open>{count}\<close> in an f-string: the decimal digits of a Python integer.\<close>

definition dec_digit :: "nat \<Rightarrow> char" where
  "dec_digit d = ''0123456789'' ! d"

fun dec_digits :: "nat \<Rightarrow> string" where
  "dec_digits n =
     (if n < 10 then [dec_digit n] else dec_digits (n div 10) @ [dec_digit (n mod 10)])"

declare dec_digits.simps [simp del]

definition str_int :: "int \<Rightarrow> string" where
  "str_int n = (if n < 0 then CHR ''-'' # dec_digits (nat (- n)) else dec_digits (nat n))"

text \<open>The line printed for an accepted colour: \<^verbatim>\<open>f"{hex_val} (count: {count})"\<close>.\<close>

definition count_line :: "string \<Rightarrow> int \<Rightarrow> string" where
  "count_line h n = h @ '' (count: '' @ str_int n @ '')''"

subsection \<open>Sorting\<close>

text \<open>
  \<^verbatim>\<open>list.sort(key=..., reverse=True)\<close>: the interpreter reverses the list, sorts it
  with its stable sort, ascending by key, and reverses the result.
\<close>

definition list_sort_reverse :: "('a \<Rightarrow> int) \<Rightarrow> 'a list \<Rightarrow> 'a list" where
  "list_sort_reverse key xs = rev (sort_key key (rev xs))"

text \<open>
  \<^verbatim>\<open>colors.sort(key=lambda x: x[0], reverse=True)\<close>, where \<^verbatim>\<open>colors\<close> may be
  \<^verbatim>\<open>None\<close>, which has no method \<^verbatim>\<open>sort\<close>: the attribute lookup raises.
\<close>

definition none_sort_message :: string where
  "none_sort_message =
     [CHR 0x27] @ ''NoneType'' @ [CHR 0x27] @ '' object has no attribute '' @
     [CHR 0x27] @ ''sort'' @ [CHR 0x27]"

definition colors_sort :: "histogram option \<Rightarrow> string + histogram" where
  "colors_sort colors =
     (case colors of
        None \<Rightarrow> Inl none_sort_message
      | Some cs \<Rightarrow> Inr (list_sort_reverse fst cs))"

subsection \<open>The loop\<close>

text \<open>
  The state of the \<^verbatim>\<open>for\<close> loop is \<^verbatim>\<open>unique_hexes\<close>, \<^verbatim>\<open>seen\<close> and the lines
  printed so far.
\<close>

type_synonym loop_state = "string list \<times> string set \<times> string list"

fun for_colors :: "histogram \<Rightarrow> loop_state \<Rightarrow> loop_state" where
  "for_colors [] st = st"
| "for_colors ((count, color) # rest) (unique_hexes, seen, out) =
     (let hex_val = color_hex color in
      if hex_val \<notin> seen then
        if count > 100 then
          for_colors rest
            (unique_hexes @ [hex_val], insert hex_val seen, out @ [count_line hex_val count])
        else for_colors rest (unique_hexes, seen, out)
      else for_colors rest (unique_hexes, seen, out))"

subsection \<open>The extractor\<close>

text \<open>
  The result is the lines printed and the value returned: \<open>Some\<close> of the list on the
  normal path, \<open>None\<close> where the handler runs, since the function then ends without a
  \<^verbatim>\<open>return\<close>.
\<close>

definition except_handler :: "string list \<Rightarrow> string \<Rightarrow> string list \<times> string list option" where
  "except_handler out e = (out @ [''Error: '' @ e], None)"

definition get_unique_colors :: "'img pil \<Rightarrow> string \<Rightarrow> string list \<times> string list option" where
  "get_unique_colors L image_path =
     (case Image_open L image_path of
        Inl e \<Rightarrow> except_handler [] e
      | Inr img \<Rightarrow>
          (case convert L img ''RGB'' of
             Inl e \<Rightarrow> except_handler [] e
           | Inr img \<Rightarrow>
               (case getcolors L img 1000000 of
                  Inl e \<Rightarrow> except_handler [] e
                | Inr colors \<Rightarrow>
                    (case colors_sort colors of
                       Inl e \<Rightarrow> except_handler [] e
                     | Inr colors \<Rightarrow>
                         (case for_colors colors ([], {}, [''Extracted Colors:'']) of
                            (unique_hexes, seen, out) \<Rightarrow> (out, Some unique_hexes))))))"

subsection \<open>The script\<close>

text \<open>
  How a run of the script ends: it reaches the end of the file, it calls
  \<^verbatim>\<open>sys.exit\<close>, or an exception escapes. The script has no \<^verbatim>\<open>sys.exit\<close>, and
  the extractor catches what it raises.
\<close>

datatype ending = End_of_script | Sys_exit int | Uncaught string

fun exit_code :: "ending \<Rightarrow> int" where
  "exit_code End_of_script = 0"
| "exit_code (Sys_exit n) = n"
| "exit_code (Uncaught e) = 1"

definition usage_line :: string where
  "usage_line = ''Usage: python extract_colors.py <image_path>''"

definition main :: "'img pil \<Rightarrow> string list \<Rightarrow> string list \<times> ending" where
  "main L argv =
     (if length argv < 2 then ([usage_line], End_of_script)
      else (fst (get_unique_colors L (argv ! 1)), End_of_script))"

subsection \<open>What the library returned\<close>

text \<open>
  The outcome of the three library calls of a run, in the order the extractor makes
  them: the text of the first exception, or what \<^verbatim>\<open>getcolors\<close> returned.
\<close>

definition pil_outcome :: "'img pil \<Rightarrow> string \<Rightarrow> string + histogram option" where
  "pil_outcome L image_path =
     (case Image_open L image_path of
        Inl e \<Rightarrow> Inl e
      | Inr img \<Rightarrow>
          (case convert L img ''RGB'' of
             Inl e \<Rightarrow> Inl e
           | Inr img \<Rightarrow> getcolors L img 1000000))"

text \<open>
  The exception that the \<^verbatim>\<open>try\<close> block raises, if any: one of the library calls
  raises, or the sort finds \<^verbatim>\<open>None\<close>. Past the sort nothing raises: the loop
  formats three integers of a pixel, compares a count and prints.
\<close>

definition raised :: "'img pil \<Rightarrow> string \<Rightarrow> string option" where
  "raised L image_path =
     (case pil_outcome L image_path of
        Inl e \<Rightarrow> Some e
      | Inr colors \<Rightarrow>
          (case colors_sort colors of
             Inl e \<Rightarrow> Some e
           | Inr cs \<Rightarrow> None))"

subsection \<open>Notions of the specification\<close>

text \<open>The hex string and the printed line of a histogram entry.\<close>

definition entry_hex :: "int \<times> color \<Rightarrow> string" where
  "entry_hex e = color_hex (snd e)"

definition entry_line :: "int \<times> color \<Rightarrow> string" where
  "entry_line e = count_line (color_hex (snd e)) (fst e)"

text \<open>
  Modelled from the spec: the histogram of an image, which the library computes and the
  script only reads. ``Compute the count of occurrences of each distinct Color across
  all pixels'': every colour of the pixels has one entry, and its count is the number of
  pixels of that colour. The order of the entries is the library's.
\<close>

definition is_histogram_of :: "color list \<Rightarrow> histogram \<Rightarrow> bool" where
  "is_histogram_of pixels h =
     (distinct (map snd h) \<and> set (map snd h) = set pixels \<and>
      list_all (\<lambda>e. fst e = int (count_list pixels (snd e))) h)"

text \<open>The pattern \<^verbatim>\<open>#[0-9a-f]{6}\<close>, anchored at both ends.\<close>

definition hex_chars :: "char set" where
  "hex_chars = set ''0123456789abcdef''"

definition hex_pattern :: "string \<Rightarrow> bool" where
  "hex_pattern s =
     (case s of
        [] \<Rightarrow> False
      | c # cs \<Rightarrow> c = CHR ''#'' \<and> length cs = 6 \<and> list_all (\<lambda>x. x \<in> hex_chars) cs)"

text \<open>
  The palette in the words of the specification, without the \<^verbatim>\<open>seen\<close> set: the
  sorted histogram, the entries whose count exceeds 100, each as its hex string; and
  the lines printed for them.
\<close>

definition threshold_palette :: "histogram \<Rightarrow> string list" where
  "threshold_palette cs = map entry_hex (filter (\<lambda>e. 100 < fst e) (list_sort_reverse fst cs))"

definition threshold_lines :: "histogram \<Rightarrow> string list" where
  "threshold_lines cs = map entry_line (filter (\<lambda>e. 100 < fst e) (list_sort_reverse fst cs))"

text \<open>
  A stand-in for the library, to run the extractor on concrete inputs: a table from
  paths to what \<^verbatim>\<open>getcolors\<close> returns for the file. A path that is not in the
  table does not open.
\<close>

definition stub_pil :: "(string \<times> histogram option) list \<Rightarrow> (histogram option) pil" where
  "stub_pil files =
     \<lparr>Image_open = (\<lambda>path. case map_of files path of
          None \<Rightarrow> Inl (''[Errno 2] No such file or directory: '' @ [CHR 0x27] @ path @ [CHR 0x27])
        | Some h \<Rightarrow> Inr h),
      convert = (\<lambda>img mode. Inr img),
      getcolors = (\<lambda>img maxcolors. Inr img)\<rparr>"

section \<open>Properties\<close>

subsection \<open>The extractor in terms of the library's outcome\<close>

lemma get_unique_colors_outcome:
  "get_unique_colors L p =
     (case pil_outcome L p of
        Inl e \<Rightarrow> ([''Error: '' @ e], None)
      | Inr None \<Rightarrow> ([''Error: '' @ none_sort_message], None)
      | Inr (Some cs) \<Rightarrow>
          (case for_colors (list_sort_reverse fst cs) ([], {}, [''Extracted Colors:'']) of
             (unique_hexes, seen, out) \<Rightarrow> (out, Some unique_hexes)))"
  by (simp add: get_unique_colors_def pil_outcome_def colors_sort_def except_handler_def
      split: sum.splits option.splits)

lemma raised_outcome:
  "raised L p =
     (case pil_outcome L p of
        Inl e \<Rightarrow> Some e
      | Inr None \<Rightarrow> Some none_sort_message
      | Inr (Some cs) \<Rightarrow> None)"
  by (simp add: raised_def colors_sort_def split: sum.splits option.splits)

lemma raised_None_iff:
  "raised L p = None \<longleftrightarrow> (\<exists>cs. pil_outcome L p = Inr (Some cs))"
  by (simp add: raised_outcome split: sum.splits option.splits)

lemma stub_pil_outcome:
  "pil_outcome (stub_pil files) p =
     (case map_of files p of
        None \<Rightarrow> Inl (''[Errno 2] No such file or directory: '' @ [CHR 0x27] @ p @ [CHR 0x27])
      | Some h \<Rightarrow> Inr h)"
  by (simp add: pil_outcome_def stub_pil_def split: option.splits)

subsection \<open>Formatting a pixel\<close>

lemma hex_digit_inj:
  "i < 16 \<Longrightarrow> j < 16 \<Longrightarrow> hex_digit i = hex_digit j \<longleftrightarrow> i = j"
  unfolding hex_digit_def by (rule nth_eq_iff_index_eq) simp_all

lemma hex_digit_mem: "d < 16 \<Longrightarrow> hex_digit d \<in> hex_chars"
  unfolding hex_digit_def hex_chars_def by (rule nth_mem) simp

lemma hex_digit_0: "hex_digit 0 = CHR ''0''"
  by (simp add: hex_digit_def)

lemma hex_digits_byte:
  assumes "n < 256"
  shows "zero_pad 2 (hex_digits n) = [hex_digit (n div 16), hex_digit (n mod 16)]"
proof (cases "n < 16")
  case True
  then show ?thesis
    by (simp add: hex_digits.simps [of n] zero_pad_def hex_digit_0)
next
  case False
  with assms have "n div 16 < 16" by simp
  with False show ?thesis
    by (simp add: hex_digits.simps [of n] hex_digits.simps [of "n div 16"] zero_pad_def)
qed

lemma format_02x_byte:
  assumes "0 \<le> n" and "n < 256"
  shows "format_02x n = [hex_digit (nat n div 16), hex_digit (nat n mod 16)]"
  using assms by (simp add: format_02x_def hex_digits_byte)

lemma format_02x_uint:
  fixes w :: "8 word"
  shows "format_02x (uint w) = [hex_digit (unat w div 16), hex_digit (unat w mod 16)]"
proof -
  have "uint w < 256" using uint_bounded [of w] by simp
  then show ?thesis by (simp add: format_02x_byte)
qed

lemma format_02x_uint_inj:
  fixes v w :: "8 word"
  assumes "format_02x (uint v) = format_02x (uint w)"
  shows "v = w"
proof -
  have bv: "unat v < 256" and bw: "unat w < 256"
    using unsigned_less [of v] unsigned_less [of w] by simp_all
  then have "unat v div 16 < 16" "unat w div 16 < 16" by simp_all
  moreover have "unat v mod 16 < 16" "unat w mod 16 < 16" by simp_all
  ultimately have "unat v div 16 = unat w div 16" and "unat v mod 16 = unat w mod 16"
    using assms by (simp_all add: format_02x_uint hex_digit_inj)
  then have "unat v = unat w"
    by (metis div_mult_mod_eq)
  then show ?thesis by (simp add: word_unat_eq_iff)
qed

lemma color_hex_chars:
  "color_hex (r, g, b) =
     [CHR ''#'', hex_digit (unat r div 16), hex_digit (unat r mod 16),
      hex_digit (unat g div 16), hex_digit (unat g mod 16),
      hex_digit (unat b div 16), hex_digit (unat b mod 16)]"
  by (simp add: color_hex_def format_hex_def format_02x_uint)

lemma color_hex_inj: "color_hex c = color_hex d \<longleftrightarrow> c = d"
proof
  assume eq: "color_hex c = color_hex d"
  obtain r g b where c: "c = (r, g, b)" by (cases c)
  obtain r' g' b' where d: "d = (r', g', b')" by (cases d)
  from eq have "format_02x (uint r) = format_02x (uint r')"
    and "format_02x (uint g) = format_02x (uint g')"
    and "format_02x (uint b) = format_02x (uint b')"
    unfolding c d by (simp_all add: color_hex_def format_hex_def format_02x_uint)
  then show "c = d"
    unfolding c d by (simp add: format_02x_uint_inj)
qed simp


subsection \<open>The loop\<close>



lemma for_colors_entries:
  "\<exists>es. subseq es xs \<and>
     for_colors xs (u, s, out) =
       (u @ map entry_hex es, s \<union> entry_hex ` set es, out @ map entry_line es)"
proof (induction xs arbitrary: u s out)
  case Nil
  show ?case by simp
next
  case (Cons x xs)
  obtain n c where x: "x = (n, c)" by (cases x)
  show ?case
  proof (cases "color_hex c \<notin> s \<and> 100 < n")
    case True
    from Cons [of "u @ [color_hex c]" "insert (color_hex c) s" "out @ [count_line (color_hex c) n]"]
    obtain es where "subseq es xs"
      and "for_colors xs (u @ [color_hex c], insert (color_hex c) s, out @ [count_line (color_hex c) n]) =
        ((u @ [color_hex c]) @ map entry_hex es, insert (color_hex c) s \<union> entry_hex ` set es,
         (out @ [count_line (color_hex c) n]) @ map entry_line es)"
      by blast
    with True x have "subseq (x # es) (x # xs) \<and>
      for_colors (x # xs) (u, s, out) =
        (u @ map entry_hex (x # es), s \<union> entry_hex ` set (x # es), out @ map entry_line (x # es))"
      by (simp add: entry_hex_def entry_line_def Let_def)
    then show ?thesis by blast
  next
    case False
    from Cons [of u s out] obtain es where "subseq es xs"
      and "for_colors xs (u, s, out) =
        (u @ map entry_hex es, s \<union> entry_hex ` set es, out @ map entry_line es)"
      by blast
    with False x have "subseq es (x # xs) \<and>
      for_colors (x # xs) (u, s, out) =
        (u @ map entry_hex es, s \<union> entry_hex ` set es, out @ map entry_line es)"
      by (auto simp add: Let_def)
    then show ?thesis by blast
  qed
qed

lemma for_colors_set:
  "set (fst (for_colors xs (u, s, out))) =
     set u \<union> (entry_hex ` {e \<in> set xs. 100 < fst e} - s)"
proof (induction xs arbitrary: u s out)
  case Nil
  show ?case by simp
next
  case (Cons x xs)
  obtain n c where x: "x = (n, c)" by (cases x)
  let ?H = "entry_hex ` {e \<in> set xs. 100 < fst e}"
  show ?case
  proof (cases "100 < n")
    case True
    then have "{e \<in> set (x # xs). 100 < fst e} = insert x {e \<in> set xs. 100 < fst e}"
      unfolding x by auto
    then have eq: "entry_hex ` {e \<in> set (x # xs). 100 < fst e} = insert (color_hex c) ?H"
      unfolding x by (simp add: entry_hex_def)
    show ?thesis
      unfolding eq using True unfolding x by (auto simp add: Cons Let_def)
  next
    case False
    then have "{e \<in> set (x # xs). 100 < fst e} = {e \<in> set xs. 100 < fst e}"
      unfolding x by auto
    then have eq: "entry_hex ` {e \<in> set (x # xs). 100 < fst e} = ?H"
      by simp
    show ?thesis
      unfolding eq using False unfolding x by (auto simp add: Cons Let_def)
  qed
qed

lemma for_colors_distinct:
  assumes "distinct (map entry_hex xs)" and "\<forall>e \<in> set xs. entry_hex e \<notin> s"
  shows "for_colors xs (u, s, out) =
     (u @ map entry_hex (filter (\<lambda>e. 100 < fst e) xs),
      s \<union> entry_hex ` set (filter (\<lambda>e. 100 < fst e) xs),
      out @ map entry_line (filter (\<lambda>e. 100 < fst e) xs))"
  using assms
proof (induction xs arbitrary: u s out)
  case Nil
  show ?case by simp
next
  case (Cons x xs)
  obtain n c where x: "x = (n, c)" by (cases x)
  from Cons.prems have d: "distinct (map entry_hex xs)"
    and other: "entry_hex x \<notin> entry_hex ` set xs"
    and fresh': "\<forall>e \<in> set xs. entry_hex e \<notin> s"
    and new': "entry_hex x \<notin> s"
    by simp_all
  from new' have new: "color_hex c \<notin> s"
    unfolding x by (simp add: entry_hex_def)
  have xc: "entry_hex x = color_hex c"
    unfolding x by (simp add: entry_hex_def)
  from other fresh' have "\<forall>e \<in> set xs. entry_hex e \<notin> insert (entry_hex x) s"
    by (metis image_eqI insert_iff)
  then have fresh: "\<forall>e \<in> set xs. entry_hex e \<notin> insert (color_hex c) s"
    unfolding xc .
  show ?case
  proof (cases "100 < n")
    case True
    with new show ?thesis
      unfolding x by (simp add: Cons.IH [OF d fresh] entry_hex_def entry_line_def Let_def)
  next
    case False
    with new show ?thesis
      unfolding x by (simp add: Cons.IH [OF d fresh'] Let_def)
  qed
qed

lemma get_unique_colors_first_line:
  "\<exists>rest. fst (get_unique_colors L p) = ''Extracted Colors:'' # rest \<or>
     (\<exists>e. fst (get_unique_colors L p) = [''Error: '' @ e])"
proof (cases "pil_outcome L p")
  case (Inl e)
  then show ?thesis by (simp add: get_unique_colors_outcome)
next
  case (Inr colors)
  show ?thesis
  proof (cases colors)
    case None
    with Inr show ?thesis by (simp add: get_unique_colors_outcome)
  next
    case (Some cs)
    from for_colors_entries [of "list_sort_reverse fst cs" "[]" "{}" "[''Extracted Colors:'']"]
    obtain es where "for_colors (list_sort_reverse fst cs) ([], {}, [''Extracted Colors:'']) =
      ([] @ map entry_hex es, {} \<union> entry_hex ` set es,
       [''Extracted Colors:''] @ map entry_line es)"
      by (elim exE conjE)
    with Inr Some show ?thesis by (simp add: get_unique_colors_outcome)
  qed
qed

subsection \<open>The sort\<close>



lemma set_list_sort_reverse: "set (list_sort_reverse key xs) = set xs"
  by (simp add: list_sort_reverse_def)

lemma distinct_list_sort_reverse: "distinct (list_sort_reverse key xs) = distinct xs"
  by (simp add: list_sort_reverse_def)

lemma distinct_entry_hex:
  assumes "distinct (map snd cs)"
  shows "distinct (map entry_hex (list_sort_reverse fst cs))"
proof -
  from assms have d: "distinct cs" and inj: "inj_on snd (set cs)"
    by (simp_all add: distinct_map)
  have "inj_on entry_hex (set cs)"
  proof (rule inj_onI)
    fix x y assume "x \<in> set cs" "y \<in> set cs" "entry_hex x = entry_hex y"
    then have "snd x = snd y" by (simp add: entry_hex_def color_hex_inj)
    with inj \<open>x \<in> set cs\<close> \<open>y \<in> set cs\<close> show "x = y" by (simp add: inj_on_def)
  qed
  with d show ?thesis
    by (simp add: distinct_map distinct_list_sort_reverse set_list_sort_reverse)
qed

lemma for_colors_none:
  "\<forall>e \<in> set xs. fst e \<le> 100 \<Longrightarrow> for_colors xs (u, s, out) = (u, s, out)"
proof (induction xs)
  case Nil
  show ?case by simp
next
  case (Cons x xs)
  obtain n c where x: "x = (n, c)" by (cases x)
  from Cons.prems have "\<not> 100 < n" unfolding x by simp
  with Cons show ?case unfolding x by (simp add: Let_def)
qed

lemma count_list_replicate: "count_list (replicate n x) x = n"
  by (induction n) simp_all

lemma distinct_singleton:
  assumes "distinct xs" and "set xs = {x}"
  shows "xs = [x]"
proof (cases xs)
  case Nil
  with assms show ?thesis by simp
next
  case (Cons y ys)
  with assms have "y = x" by auto
  moreover from Cons assms have "set ys \<subseteq> {x}" and "y \<notin> set ys" by auto
  ultimately have "ys = []" by (cases ys) auto
  with Cons \<open>y = x\<close> show ?thesis by simp
qed

lemma solid_histogram:
  assumes "is_histogram_of (replicate n c) h" and "0 < n"
  shows "h = [(int n, c)]"
proof -
  from assms have "distinct (map snd h)" and "set (map snd h) = {c}"
    by (simp_all add: is_histogram_of_def)
  then have "map snd h = [c]" by (rule distinct_singleton)
  from assms have cnt: "list_all (\<lambda>e. fst e = int (count_list (replicate n c) (snd e))) h"
    by (simp add: is_histogram_of_def)
  from \<open>map snd h = [c]\<close> obtain e where h: "h = [e]" and "snd e = c" by (cases h) auto
  with cnt have "fst e = int n" by (simp add: count_list_replicate)
  with h \<open>snd e = c\<close> show ?thesis by (simp add: prod_eq_iff)
qed

lemma list_sort_reverse_single: "list_sort_reverse key [x] = [x]"
  by (simp add: list_sort_reverse_def)

section \<open>The claims\<close>

text \<open>
  C1. An image of width \<open>W\<close> and height \<open>H\<close> whose pixels all have the colour
  \<open>c\<close>, with \<open>W * H > 100\<close>: the palette has exactly one entry, the hex string of
  \<open>c\<close>, and the line printed for it reports the count \<open>W * H\<close>.
\<close>

theorem solid_color_single_entry:
  assumes "pil_outcome L p = Inr (Some hist)"
    and "is_histogram_of (replicate (W * H) c) hist"
    and "100 < W * H"
  shows "get_unique_colors L p =
    ([''Extracted Colors:'', color_hex c @ '' (count: '' @ str_int (int (W * H)) @ '')''],
     Some [color_hex c])"
proof -
  from assms(3) have "0 < W * H" by (rule less_trans [rotated]) simp
  with assms(2) have "hist = [(int (W * H), c)]"
    by (rule solid_histogram)
  moreover from assms(3) have "100 < int (W * H)" by linarith
  ultimately show ?thesis
    using assms(1)
    by (simp add: get_unique_colors_outcome list_sort_reverse_single Let_def count_line_def
        del: of_nat_mult)
qed

theorem solid_color_single_entry_witness:
  "pil_outcome (stub_pil [(''red.png'', Some [(120, (255, 0, 0))])]) ''red.png''
     = Inr (Some [(120, (255, 0, 0))]) \<and>
   is_histogram_of (replicate (12 * 10) (255, 0, 0)) [(120, (255, 0, 0))] \<and>
   (100::nat) < 12 * 10 \<and>
   get_unique_colors (stub_pil [(''red.png'', Some [(120, (255, 0, 0))])]) ''red.png'' =
     ([''Extracted Colors:'', ''#ff0000 (count: 120)''], Some [''#ff0000''])"
proof -
  let ?L = "stub_pil [(''red.png'', Some [(120, (255, 0, 0))])]"
  have h1: "pil_outcome ?L ''red.png'' = Inr (Some [(120, (255, 0, 0))])"
    by (simp add: stub_pil_outcome)
  have h2: "is_histogram_of (replicate (12 * 10) (255, 0, 0)) [(120, (255, 0, 0))]"
    by (simp add: is_histogram_of_def count_list_replicate)
  have h3: "(100::nat) < 12 * 10" by simp
  have hex: "color_hex (255, 0, 0) = ''#ff0000''"
    by (simp add: color_hex_chars hex_digit_def)
  have cnt: "str_int 120 = ''120''"
    by (simp add: str_int_def dec_digits.simps dec_digit_def)
  from solid_color_single_entry [OF h1 h2 h3] h1 h2 h3 show ?thesis
    by (simp add: hex cnt)
qed

text \<open>
  C2. When the image decodes, that is the library returns its histogram, a colour is in
  the returned palette if and only if its count exceeds 100: the palette holds the hex
  strings of exactly the histogram's colours with a count above 100; where the
  histogram is that of a list of pixels, the count is the number of pixels of the
  colour; and the palette is empty when no count exceeds 100.
\<close>

theorem palette_iff_count_exceeds_100:
  assumes "pil_outcome L p = Inr (Some cs)"
  shows "\<exists>out palette. get_unique_colors L p = (out, Some palette) \<and>
    set palette = color_hex ` {c. \<exists>n. (n, c) \<in> set cs \<and> 100 < n} \<and>
    (\<forall>c. color_hex c \<in> set palette \<longleftrightarrow> (\<exists>n. (n, c) \<in> set cs \<and> 100 < n)) \<and>
    (is_histogram_of pixels cs \<longrightarrow>
       (\<forall>c. color_hex c \<in> set palette \<longleftrightarrow> 100 < count_list pixels c)) \<and>
    ((\<forall>e \<in> set cs. fst e \<le> 100) \<longrightarrow> palette = [])"
proof -
  let ?xs = "list_sort_reverse fst cs"
  let ?st = "for_colors ?xs ([], {}, [''Extracted Colors:''])"
  let ?C = "{c. \<exists>n. (n, c) \<in> set cs \<and> 100 < n}"
  obtain palette seen out where st: "?st = (palette, seen, out)"
    by (cases ?st)
  with assms have run: "get_unique_colors L p = (out, Some palette)"
    by (simp add: get_unique_colors_outcome)
  have "set (fst ?st) = entry_hex ` {e \<in> set ?xs. 100 < fst e}"
    by (simp add: for_colors_set)
  also have "{e \<in> set ?xs. 100 < fst e} = {e \<in> set cs. 100 < fst e}"
    by (simp add: set_list_sort_reverse)
  also have "entry_hex ` {e \<in> set cs. 100 < fst e} = color_hex ` ?C"
    by (force simp add: entry_hex_def image_iff)
  finally have set_eq: "set palette = color_hex ` ?C"
    by (simp add: st)
  have iff: "color_hex c \<in> set palette \<longleftrightarrow> (\<exists>n. (n, c) \<in> set cs \<and> 100 < n)" for c
    unfolding set_eq by (auto simp add: color_hex_inj)
  have occ: "color_hex c \<in> set palette \<longleftrightarrow> 100 < count_list pixels c"
    if h: "is_histogram_of pixels cs" for c
  proof
    assume "color_hex c \<in> set palette"
    then obtain n where "(n, c) \<in> set cs" and "100 < n" using iff by blast
    moreover from h \<open>(n, c) \<in> set cs\<close> have "n = int (count_list pixels c)"
      by (auto simp add: is_histogram_of_def list_all_iff)
    ultimately show "100 < count_list pixels c" by simp
  next
    assume big: "100 < count_list pixels c"
    then have "count_list pixels c \<noteq> 0" by simp
    then have "c \<in> set pixels" by (simp add: count_list_0_iff)
    with h have "c \<in> snd ` set cs" by (simp add: is_histogram_of_def)
    then obtain n where in_cs: "(n, c) \<in> set cs" by force
    with h have "n = int (count_list pixels c)"
      by (auto simp add: is_histogram_of_def list_all_iff)
    with big in_cs show "color_hex c \<in> set palette" using iff by auto
  qed
  have "palette = []" if "\<forall>e \<in> set cs. fst e \<le> 100"
  proof -
    from that have "?C = {}" by force
    with set_eq show ?thesis by simp
  qed
  then have empty: "(\<forall>e \<in> set cs. fst e \<le> 100) \<longrightarrow> palette = []" by (rule impI)
  from occ have occ': "is_histogram_of pixels cs \<longrightarrow>
      (\<forall>c. color_hex c \<in> set palette \<longleftrightarrow> 100 < count_list pixels c)"
    by (intro impI allI)
  from iff have iff': "\<forall>c. color_hex c \<in> set palette \<longleftrightarrow> (\<exists>n. (n, c) \<in> set cs \<and> 100 < n)"
    by (rule allI)
  show ?thesis
    by (intro exI conjI) (rule run set_eq iff' occ' empty)+
qed

theorem palette_iff_count_exceeds_100_witness:
  "pil_outcome (stub_pil [(''a.png'', Some [(100, (1, 2, 3)), (101, (4, 5, 6))])]) ''a.png''
     = Inr (Some [(100, (1, 2, 3)), (101, (4, 5, 6))]) \<and>
   is_histogram_of (replicate 100 (1, 2, 3) @ replicate 101 (4, 5, 6))
     [(100, (1, 2, 3)), (101, (4, 5, 6))] \<and>
   (\<exists>out palette.
      get_unique_colors (stub_pil [(''a.png'', Some [(100, (1, 2, 3)), (101, (4, 5, 6))])])
        ''a.png'' = (out, Some palette) \<and>
      color_hex (4, 5, 6) \<in> set palette \<and> color_hex (1, 2, 3) \<notin> set palette) \<and>
   pil_outcome (stub_pil [(''b.png'', Some [(100, (1, 2, 3)), (7, (4, 5, 6))])]) ''b.png''
     = Inr (Some [(100, (1, 2, 3)), (7, (4, 5, 6))]) \<and>
   list_all (\<lambda>e. fst e \<le> 100) ([(100, (1, 2, 3)), (7, (4, 5, 6))] :: histogram) \<and>
   (\<exists>out.
      get_unique_colors (stub_pil [(''b.png'', Some [(100, (1, 2, 3)), (7, (4, 5, 6))])])
        ''b.png'' = (out, Some []))"
proof -
  let ?cs = "[(100, (1, 2, 3)), (101, (4, 5, 6))] :: histogram"
  let ?px = "replicate 100 (1, 2, 3) @ replicate 101 (4, 5, 6) :: color list"
  let ?L = "stub_pil [(''a.png'', Some ?cs)]"
  have h1: "pil_outcome ?L ''a.png'' = Inr (Some ?cs)"
    by (simp add: stub_pil_outcome)
  have h2: "is_histogram_of ?px ?cs"
    by (simp add: is_histogram_of_def count_list_replicate insert_commute)
  from palette_iff_count_exceeds_100 [OF h1, of ?px]
  obtain out palette where run: "get_unique_colors ?L ''a.png'' = (out, Some palette)"
    and occ: "is_histogram_of ?px ?cs \<longrightarrow>
      (\<forall>c. color_hex c \<in> set palette \<longleftrightarrow> 100 < count_list ?px c)"
    by (elim exE conjE)
  from occ h2 have iff: "\<forall>c. color_hex c \<in> set palette \<longleftrightarrow> 100 < count_list ?px c"
    by (rule mp)
  from iff have "color_hex (4, 5, 6) \<in> set palette \<longleftrightarrow> 100 < count_list ?px (4, 5, 6)"
    by (rule spec)
  then have yes: "color_hex (4, 5, 6) \<in> set palette"
    by (simp add: count_list_replicate)
  from iff have "color_hex (1, 2, 3) \<in> set palette \<longleftrightarrow> 100 < count_list ?px (1, 2, 3)"
    by (rule spec)
  then have no: "color_hex (1, 2, 3) \<notin> set palette"
    by (simp add: count_list_replicate)
  from run yes no have a: "\<exists>out palette. get_unique_colors ?L ''a.png'' = (out, Some palette) \<and>
      color_hex (4, 5, 6) \<in> set palette \<and> color_hex (1, 2, 3) \<notin> set palette"
    by (intro exI conjI)
  let ?cs' = "[(100, (1, 2, 3)), (7, (4, 5, 6))] :: histogram"
  let ?L' = "stub_pil [(''b.png'', Some ?cs')]"
  have h3: "pil_outcome ?L' ''b.png'' = Inr (Some ?cs')"
    by (simp add: stub_pil_outcome)
  have h4: "list_all (\<lambda>e. fst e \<le> 100) ?cs'"
    by simp
  from palette_iff_count_exceeds_100 [OF h3, of "[]"]
  obtain out' palette' where run': "get_unique_colors ?L' ''b.png'' = (out', Some palette')"
    and empty: "(\<forall>e \<in> set ?cs'. fst e \<le> 100) \<longrightarrow> palette' = []"
    by (elim exE conjE)
  from empty have "palette' = []" by simp
  with run' have b: "\<exists>out. get_unique_colors ?L' ''b.png'' = (out, Some [])"
    by simp
  from h1 h2 a h3 h4 b show ?thesis by (intro conjI)
qed



text \<open>
  C4. Whenever the \<^verbatim>\<open>try\<close> block raises, by a library call or by the sort, the
  handler prints the one line \<^verbatim>\<open>Error: <message>\<close> and the function returns no
  list: nothing else is printed, not the banner and no colour, and no part of a palette
  is returned.
\<close>

theorem error_prints_message_no_palette:
  assumes "raised L p = Some e"
  shows "get_unique_colors L p = ([''Error: '' @ e], None)"
  using assms
  by (simp add: raised_outcome get_unique_colors_outcome split: sum.splits option.splits)

theorem error_prints_message_no_palette_witness:
  "raised (stub_pil [(''a.png'', Some [(500, (1, 2, 3))])]) ''missing.png'' =
     Some (''[Errno 2] No such file or directory: '' @ [CHR 0x27] @ ''missing.png'' @ [CHR 0x27]) \<and>
   get_unique_colors (stub_pil [(''a.png'', Some [(500, (1, 2, 3))])]) ''missing.png'' =
     ([''Error: [Errno 2] No such file or directory: '' @ [CHR 0x27] @ ''missing.png'' @ [CHR 0x27]],
      None)"
proof -
  let ?L = "stub_pil [(''a.png'', Some [(500, (1, 2, 3))])]"
  let ?e = "''[Errno 2] No such file or directory: '' @ [CHR 0x27] @ ''missing.png'' @ [CHR 0x27]"
  have h: "raised ?L ''missing.png'' = Some ?e"
    by (simp add: raised_outcome stub_pil_outcome)
  from error_prints_message_no_palette [OF h] h show ?thesis
    by simp
qed

lemma unat_byte_div: "unat (w :: 8 word) div 16 < 16"
proof -
  have "unat w < 256" using unsigned_less [of w] by simp
  then show ?thesis by simp
qed

text \<open>
  C5. The format of line 18 on three integers between 0 and 255 gives a string of 7
  characters, \<^verbatim>\<open>#\<close> and six of \<^verbatim>\<open>0-9a-f\<close>; so does every string of a returned
  palette, the bands of an RGB pixel being such integers.
\<close>

theorem palette_hex_pattern:
  "(0 \<le> r \<and> r \<le> 255 \<and> 0 \<le> g \<and> g \<le> 255 \<and> 0 \<le> b \<and> b \<le> 255 \<longrightarrow>
      hex_pattern (format_hex r g b) \<and> length (format_hex r g b) = 7) \<and>
   (get_unique_colors L p = (out, Some palette) \<longrightarrow>
      (\<forall>h \<in> set palette. hex_pattern h \<and> length h = 7))"
proof (intro conjI impI ballI)
  assume range: "0 \<le> r \<and> r \<le> 255 \<and> 0 \<le> g \<and> g \<le> 255 \<and> 0 \<le> b \<and> b \<le> 255"
  then have "nat r div 16 < 16" "nat g div 16 < 16" "nat b div 16 < 16" by arith+
  moreover have "nat r mod 16 < 16" "nat g mod 16 < 16" "nat b mod 16 < 16" by simp_all
  ultimately show "hex_pattern (format_hex r g b)"
    using range by (simp add: hex_pattern_def format_hex_def format_02x_byte hex_digit_mem)
  from range show "length (format_hex r g b) = 7"
    by (simp add: format_hex_def format_02x_byte)
next
  fix h
  assume run: "get_unique_colors L p = (out, Some palette)" and h: "h \<in> set palette"
  have pat: "hex_pattern (color_hex c) \<and> length (color_hex c) = 7" for c
  proof -
    obtain c0 c1 c2 where c: "c = (c0, c1, c2)" by (cases c)
    have "unat c0 div 16 < 16" "unat c1 div 16 < 16" "unat c2 div 16 < 16"
      by (rule unat_byte_div)+
    moreover have "unat c0 mod 16 < 16" "unat c1 mod 16 < 16" "unat c2 mod 16 < 16" by simp_all
    ultimately show ?thesis
      unfolding c by (simp add: color_hex_chars hex_pattern_def hex_digit_mem)
  qed
  from run obtain cs where out: "pil_outcome L p = Inr (Some cs)"
    by (auto simp add: get_unique_colors_outcome split: sum.splits option.splits)
  from for_colors_set [of "list_sort_reverse fst cs" "[]" "{}" "[''Extracted Colors:'']"]
  have "set (fst (for_colors (list_sort_reverse fst cs) ([], {}, [''Extracted Colors:''])))
      \<subseteq> range color_hex"
    by (auto simp add: entry_hex_def)
  with run out have "set palette \<subseteq> range color_hex"
    by (auto simp add: get_unique_colors_outcome split: prod.splits)
  with h obtain c where "h = color_hex c" by auto
  with pat show "hex_pattern h" and "length h = 7" by simp_all
qed

theorem palette_hex_pattern_witness:
  "(0::int) \<le> 255 \<and> (255::int) \<le> 255 \<and> (0::int) \<le> 0 \<and> (0::int) \<le> 255 \<and>
   (0::int) \<le> 171 \<and> (171::int) \<le> 255 \<and>
   hex_pattern (format_hex 255 0 171) \<and> length (format_hex 255 0 171) = 7 \<and>
   format_hex 255 0 171 = ''#ff00ab'' \<and>
   get_unique_colors (stub_pil [(''a.png'', Some [(500, (255, 0, 171))])]) ''a.png'' =
     ([''Extracted Colors:'', ''#ff00ab (count: 500)''], Some [''#ff00ab'']) \<and>
   hex_pattern ''#ff00ab'' \<and> length ''#ff00ab'' = 7"
proof -
  let ?L = "stub_pil [(''a.png'', Some [(500, (255, 0, 171))])]"
  let ?out = "[''Extracted Colors:'', ''#ff00ab (count: 500)'']"
  have hex: "color_hex (255, 0, 171) = ''#ff00ab''"
    by (simp add: color_hex_chars hex_digit_def)
  have cnt: "str_int 500 = ''500''"
    by (simp add: str_int_def dec_digits.simps dec_digit_def)
  have run: "get_unique_colors ?L ''a.png'' = (?out, Some [''#ff00ab''])"
    by (simp add: get_unique_colors_outcome stub_pil_outcome list_sort_reverse_def Let_def
        hex cnt count_line_def)
  have fmt: "format_hex 255 0 171 = ''#ff00ab''"
    by (simp add: format_hex_def format_02x_byte hex_digit_def)
  have range: "(0::int) \<le> 255 \<and> (255::int) \<le> 255 \<and> (0::int) \<le> 0 \<and> (0::int) \<le> 255 \<and>
      (0::int) \<le> 171 \<and> (171::int) \<le> 255"
    by simp
  note inst = palette_hex_pattern [of 255 0 171 ?L "''a.png''" ?out "[''#ff00ab'']"]
  from inst have "(0::int) \<le> 255 \<and> (255::int) \<le> 255 \<and> (0::int) \<le> 0 \<and> (0::int) \<le> 255 \<and>
      (0::int) \<le> 171 \<and> (171::int) \<le> 255 \<longrightarrow>
      hex_pattern (format_hex 255 0 171) \<and> length (format_hex 255 0 171) = 7"
    by (rule conjunct1)
  then have a: "hex_pattern (format_hex 255 0 171) \<and> length (format_hex 255 0 171) = 7"
    using range by (rule mp)
  from inst have "get_unique_colors ?L ''a.png'' = (?out, Some [''#ff00ab'']) \<longrightarrow>
      (\<forall>h \<in> set [''#ff00ab'']. hex_pattern h \<and> length h = 7)"
    by (rule conjunct2)
  then have "\<forall>h \<in> set [''#ff00ab'']. hex_pattern h \<and> length h = 7"
    using run by (rule mp)
  then have b: "hex_pattern ''#ff00ab'' \<and> length ''#ff00ab'' = 7"
    by simp
  from range a fmt run b show ?thesis by simp
qed

text \<open>
  C6. When the colours of the histogram are pairwise different, the \<^verbatim>\<open>seen\<close> set
  changes nothing: the palette is the sorted histogram, filtered by count above 100
  and mapped to hex strings, and the printed lines are those of the same entries.
\<close>

theorem dedup_is_noop:
  assumes "pil_outcome L p = Inr (Some cs)" and "distinct (map snd cs)"
  shows "get_unique_colors L p =
    (''Extracted Colors:'' # threshold_lines cs, Some (threshold_palette cs))"
proof -
  from assms(2) have "distinct (map entry_hex (list_sort_reverse fst cs))"
    by (rule distinct_entry_hex)
  then have "for_colors (list_sort_reverse fst cs) ([], {}, [''Extracted Colors:'']) =
     ([] @ map entry_hex (filter (\<lambda>e. 100 < fst e) (list_sort_reverse fst cs)),
      {} \<union> entry_hex ` set (filter (\<lambda>e. 100 < fst e) (list_sort_reverse fst cs)),
      [''Extracted Colors:''] @
        map entry_line (filter (\<lambda>e. 100 < fst e) (list_sort_reverse fst cs)))"
    by (rule for_colors_distinct) simp
  with assms(1) show ?thesis
    by (simp add: get_unique_colors_outcome threshold_lines_def threshold_palette_def)
qed

theorem dedup_is_noop_witness:
  "pil_outcome
     (stub_pil [(''p.png'', Some [(200, (0, 0, 255)), (7, (9, 9, 9)), (500, (255, 0, 0))])])
     ''p.png'' = Inr (Some [(200, (0, 0, 255)), (7, (9, 9, 9)), (500, (255, 0, 0))]) \<and>
   distinct (map snd ([(200, (0, 0, 255)), (7, (9, 9, 9)), (500, (255, 0, 0))] :: histogram)) \<and>
   threshold_palette [(200, (0, 0, 255)), (7, (9, 9, 9)), (500, (255, 0, 0))] =
     [''#ff0000'', ''#0000ff''] \<and>
   threshold_lines [(200, (0, 0, 255)), (7, (9, 9, 9)), (500, (255, 0, 0))] =
     [''#ff0000 (count: 500)'', ''#0000ff (count: 200)''] \<and>
   get_unique_colors
     (stub_pil [(''p.png'', Some [(200, (0, 0, 255)), (7, (9, 9, 9)), (500, (255, 0, 0))])])
     ''p.png'' =
     ([''Extracted Colors:'', ''#ff0000 (count: 500)'', ''#0000ff (count: 200)''],
      Some [''#ff0000'', ''#0000ff''])"
proof -
  let ?cs = "[(200, (0, 0, 255)), (7, (9, 9, 9)), (500, (255, 0, 0))] :: histogram"
  let ?L = "stub_pil [(''p.png'', Some ?cs)]"
  have h1: "pil_outcome ?L ''p.png'' = Inr (Some ?cs)"
    by (simp add: stub_pil_outcome)
  have h2: "distinct (map snd ?cs)"
    by simp
  have hex: "color_hex (255, 0, 0) = ''#ff0000''" "color_hex (0, 0, 255) = ''#0000ff''"
    by (simp_all add: color_hex_chars hex_digit_def)
  have cnt: "str_int 500 = ''500''" "str_int 200 = ''200''"
    by (simp_all add: str_int_def dec_digits.simps dec_digit_def)
  have pal: "threshold_palette ?cs = [''#ff0000'', ''#0000ff'']"
    by (simp add: threshold_palette_def list_sort_reverse_def entry_hex_def hex)
  have lines: "threshold_lines ?cs = [''#ff0000 (count: 500)'', ''#0000ff (count: 200)'']"
    by (simp add: threshold_lines_def list_sort_reverse_def entry_line_def hex cnt count_line_def)
  from dedup_is_noop [OF h1 h2] have "get_unique_colors ?L ''p.png'' =
     ([''Extracted Colors:'', ''#ff0000 (count: 500)'', ''#0000ff (count: 200)''],
      Some [''#ff0000'', ''#0000ff''])"
    by (simp only: pal lines)
  with h1 h2 pal lines show ?thesis by (intro conjI)
qed



text \<open>
  C8. With no argument after the script's name the script prints the usage line on
  standard output and nothing else, whatever the library would do, and ends by reaching
  the end of the file, which is exit code 0; it makes no call of \<^verbatim>\<open>sys.exit\<close>.
  The extractor is not called: every call of it prints the banner or an error line
  first, and the output is neither.
\<close>

theorem no_argument_prints_usage:
  assumes "length argv < 2"
  shows "main L argv = ([''Usage: python extract_colors.py <image_path>''], End_of_script) \<and>
    exit_code (snd (main L argv)) = 0 \<and>
    (\<forall>L'. main L' argv = main L argv) \<and>
    (\<forall>p. fst (get_unique_colors L p) \<noteq> fst (main L argv))"
proof -
  have "fst (get_unique_colors L p) \<noteq> [''Usage: python extract_colors.py <image_path>'']" for p
    using get_unique_colors_first_line [of L p] by auto
  with assms show ?thesis by (simp add: main_def usage_line_def)
qed

theorem no_argument_prints_usage_witness:
  "length [''extract_colors.py''] < 2 \<and>
   main (stub_pil [(''a.png'', Some [(500, (1, 2, 3))])]) [''extract_colors.py''] =
     ([''Usage: python extract_colors.py <image_path>''], End_of_script) \<and>
   exit_code (snd (main (stub_pil [(''a.png'', Some [(500, (1, 2, 3))])])
     [''extract_colors.py''])) = 0 \<and>
   fst (get_unique_colors (stub_pil [(''a.png'', Some [(500, (1, 2, 3))])]) ''a.png'') \<noteq>
     fst (main (stub_pil [(''a.png'', Some [(500, (1, 2, 3))])]) [''extract_colors.py''])"
proof -
  let ?L = "stub_pil [(''a.png'', Some [(500, (1, 2, 3))])]"
  have h: "length [''extract_colors.py''] < 2" by simp
  note run = no_argument_prints_usage [OF h, of ?L]
  from run have a: "main ?L [''extract_colors.py''] =
      ([''Usage: python extract_colors.py <image_path>''], End_of_script)"
    by (rule conjunct1)
  from run have b: "exit_code (snd (main ?L [''extract_colors.py''])) = 0"
    by (elim conjE)
  from run have "\<forall>p. fst (get_unique_colors ?L p) \<noteq> fst (main ?L [''extract_colors.py''])"
    by (elim conjE)
  then have c: "fst (get_unique_colors ?L ''a.png'') \<noteq> fst (main ?L [''extract_colors.py''])"
    by (rule spec)
  from h a b c show ?thesis by (intro conjI)
qed

text \<open>
  C9. When \<^verbatim>\<open>getcolors\<close> returns \<^verbatim>\<open>None\<close>, as the library does for an image of
  more than 1,000,000 colours, the sort raises, the handler prints the line
  \<^verbatim>\<open>Error: 'NoneType' object has no attribute 'sort'\<close>, and no list is returned.
\<close>

theorem too_many_colors_is_error:
  assumes "pil_outcome L p = Inr None"
  shows "raised L p = Some none_sort_message \<and>
    get_unique_colors L p = ([''Error: '' @ none_sort_message], None)"
  using assms by (simp add: raised_outcome get_unique_colors_outcome)

theorem too_many_colors_is_error_witness:
  "pil_outcome (stub_pil [(''noise.png'', None)]) ''noise.png'' = Inr None \<and>
   raised (stub_pil [(''noise.png'', None)]) ''noise.png'' = Some none_sort_message \<and>
   get_unique_colors (stub_pil [(''noise.png'', None)]) ''noise.png'' =
     ([''Error: '' @ [CHR 0x27] @ ''NoneType'' @ [CHR 0x27] @ '' object has no attribute '' @
       [CHR 0x27] @ ''sort'' @ [CHR 0x27]], None)"
proof -
  have h: "pil_outcome (stub_pil [(''noise.png'', None)]) ''noise.png'' = Inr None"
    by (simp add: stub_pil_outcome)
  from too_many_colors_is_error [OF h] h show ?thesis
    by (simp add: none_sort_message_def)
qed

text \<open>
  C10. A run that finds no colour above 100 differs from a failed run in what it
  returns: when the image decodes and no count exceeds 100 the function prints the
  banner and returns the empty list; when the \<^verbatim>\<open>try\<close> block raises it returns
  \<^verbatim>\<open>None\<close>; and it returns a list whenever the block does not raise.
\<close>

theorem empty_palette_is_not_failure:
  "(pil_outcome L p = Inr (Some cs) \<and> list_all (\<lambda>e. fst e \<le> 100) cs \<longrightarrow>
      get_unique_colors L p = ([''Extracted Colors:''], Some [])) \<and>
   (raised L p = Some e \<longrightarrow> snd (get_unique_colors L p) = None) \<and>
   (raised L p = None \<longrightarrow> (\<exists>palette. snd (get_unique_colors L p) = Some palette))"
proof (intro conjI impI)
  assume "pil_outcome L p = Inr (Some cs) \<and> list_all (\<lambda>e. fst e \<le> 100) cs"
  then have out: "pil_outcome L p = Inr (Some cs)" and "\<forall>e \<in> set cs. fst e \<le> 100"
    by (simp_all add: list_all_iff)
  then have "\<forall>e \<in> set (list_sort_reverse fst cs). fst e \<le> 100"
    by (simp add: set_list_sort_reverse)
  then have "for_colors (list_sort_reverse fst cs) ([], {}, [''Extracted Colors:'']) =
      ([], {}, [''Extracted Colors:''])"
    by (rule for_colors_none)
  with out show "get_unique_colors L p = ([''Extracted Colors:''], Some [])"
    by (simp add: get_unique_colors_outcome)
next
  assume "raised L p = Some e"
  then show "snd (get_unique_colors L p) = None"
    by (simp add: raised_outcome get_unique_colors_outcome split: sum.splits option.splits)
next
  assume "raised L p = None"
  then show "\<exists>palette. snd (get_unique_colors L p) = Some palette"
    by (simp add: raised_outcome get_unique_colors_outcome split: sum.splits option.splits prod.splits)
qed

theorem empty_palette_is_not_failure_witness:
  "pil_outcome (stub_pil [(''dots.png'', Some [(100, (1, 2, 3)), (3, (4, 5, 6))])]) ''dots.png'' =
     Inr (Some [(100, (1, 2, 3)), (3, (4, 5, 6))]) \<and>
   list_all (\<lambda>e. fst e \<le> 100) ([(100, (1, 2, 3)), (3, (4, 5, 6))] :: histogram) \<and>
   get_unique_colors (stub_pil [(''dots.png'', Some [(100, (1, 2, 3)), (3, (4, 5, 6))])])
     ''dots.png'' = ([''Extracted Colors:''], Some []) \<and>
   raised (stub_pil [(''dots.png'', Some [(100, (1, 2, 3)), (3, (4, 5, 6))])]) ''gone.png'' =
     Some (''[Errno 2] No such file or directory: '' @ [CHR 0x27] @ ''gone.png'' @ [CHR 0x27]) \<and>
   snd (get_unique_colors (stub_pil [(''dots.png'', Some [(100, (1, 2, 3)), (3, (4, 5, 6))])])
     ''gone.png'') = None \<and>
   raised (stub_pil [(''dots.png'', Some [(100, (1, 2, 3)), (3, (4, 5, 6))])]) ''dots.png'' =
     None \<and>
   (\<exists>palette.
      snd (get_unique_colors (stub_pil [(''dots.png'', Some [(100, (1, 2, 3)), (3, (4, 5, 6))])])
        ''dots.png'') = Some palette)"
proof -
  let ?cs = "[(100, (1, 2, 3)), (3, (4, 5, 6))] :: histogram"
  let ?L = "stub_pil [(''dots.png'', Some ?cs)]"
  let ?e = "''[Errno 2] No such file or directory: '' @ [CHR 0x27] @ ''gone.png'' @ [CHR 0x27]"
  have h1: "pil_outcome ?L ''dots.png'' = Inr (Some ?cs)"
    by (simp add: stub_pil_outcome)
  have h2: "list_all (\<lambda>e. fst e \<le> 100) ?cs"
    by simp
  have h3: "raised ?L ''gone.png'' = Some ?e"
    by (simp add: raised_outcome stub_pil_outcome)
  have h4: "raised ?L ''dots.png'' = None"
    by (simp add: raised_outcome stub_pil_outcome)
  from empty_palette_is_not_failure [of ?L "''dots.png''" ?cs]
  have "pil_outcome ?L ''dots.png'' = Inr (Some ?cs) \<and> list_all (\<lambda>e. fst e \<le> 100) ?cs \<longrightarrow>
      get_unique_colors ?L ''dots.png'' = ([''Extracted Colors:''], Some [])"
    by (rule conjunct1)
  with h1 h2 have a: "get_unique_colors ?L ''dots.png'' = ([''Extracted Colors:''], Some [])"
    by (simp only: simp_thms)
  from empty_palette_is_not_failure [of ?L "''gone.png''" ?cs ?e]
  have "raised ?L ''gone.png'' = Some ?e \<longrightarrow> snd (get_unique_colors ?L ''gone.png'') = None"
    by (elim conjE)
  with h3 have b: "snd (get_unique_colors ?L ''gone.png'') = None"
    by (rule rev_mp)
  from empty_palette_is_not_failure [of ?L "''dots.png''" ?cs ?e]
  have "raised ?L ''dots.png'' = None \<longrightarrow>
      (\<exists>palette. snd (get_unique_colors ?L ''dots.png'') = Some palette)"
    by (elim conjE)
  with h4 have c: "\<exists>palette. snd (get_unique_colors ?L ''dots.png'') = Some palette"
    by (rule rev_mp)
  from h1 h2 a h3 b h4 c show ?thesis by (intro conjI)
qed

end
